theory Spec2Isabelle
  imports Complex_Main
begin

section \<open>Data model (types/pokemon.ts)\<close>

text \<open>
  A JavaScript string is modelled as a \<^typ>\<open>string\<close>: the bytes of its UTF-8
  encoding. The names and URLs served by the PokeAPI are ASCII. The slash, the signs,
  the digits and the hyphen are ASCII characters, so splitting and reading digits work
  on bytes as they do on characters; the white space that \<open>parseInt\<close> skips includes
  the characters beyond ASCII, in their encoding. Upper-casing moves the ASCII letters
  only.

  A JSON number in a field that holds a level or a happiness value is an \<^typ>\<open>int\<close>,
  and \<open>number | null\<close> is an \<^typ>\<open>int option\<close>.
\<close>

record NamedAPIResource =
  name :: string
  url :: string

record EvolutionDetail =
  trigger :: NamedAPIResource
  item :: "NamedAPIResource option"
  min_level :: "int option"
  min_happiness :: "int option"
  time_of_day :: string
  held_item :: "NamedAPIResource option"
  known_move :: "NamedAPIResource option"
  location :: "NamedAPIResource option"

datatype ChainLink =
  ChainLink (species: NamedAPIResource)
            (evolution_details: "EvolutionDetail list")
            (evolves_to: "ChainLink list")
            (is_baby: bool)

record FlatEvolution =
  flat_name :: string
  flat_url :: string
  minLevel :: "int option"
  details :: "EvolutionDetail list"

definition LETS_GO_MAX_POKEMON :: int where
  "LETS_GO_MAX_POKEMON = 151"

section \<open>JavaScript built-ins used by lib/api.ts\<close>

text \<open>The result of \<open>parseInt\<close>: an integer, or \<open>NaN\<close> when no digit was read.\<close>

datatype number = NaN | Num int

text \<open>\<open>a <= b\<close> on numbers: every comparison with \<open>NaN\<close> is false.\<close>

fun number_le :: "number \<Rightarrow> int \<Rightarrow> bool" where
  "number_le NaN b = False"
| "number_le (Num a) b = (a \<le> b)"

text \<open>\<open>s.split("/")\<close>: the pieces between the slashes; never an empty array.\<close>

fun split_slash :: "string \<Rightarrow> string list" where
  "split_slash [] = [[]]"
| "split_slash (c # cs) =
     (if c = CHR ''/'' then [] # split_slash cs
      else (case split_slash cs of
              [] \<Rightarrow> [[c]]
            | seg # segs \<Rightarrow> (c # seg) # segs))"

text \<open>\<open>.filter(Boolean)\<close> on strings keeps the non-empty ones.\<close>

definition filter_Boolean :: "string list \<Rightarrow> string list" where
  "filter_Boolean segs = filter (\<lambda>s. s \<noteq> []) segs"

text \<open>\<open>.pop()\<close>: the last element, \<open>undefined\<close> (here \<open>None\<close>) on an empty array.\<close>

definition pop :: "'a list \<Rightarrow> 'a option" where
  "pop xs = (if xs = [] then None else Some (last xs))"

text \<open>
  The white space and line terminators of JavaScript. In ASCII: tab, line feed, vertical
  tab, form feed, carriage return and space. Beyond ASCII, by their UTF-8 bytes: U+00A0;
  then U+1680, U+2000 to U+200A, U+2028, U+2029, U+202F, U+205F, U+3000 and U+FEFF.
\<close>

definition isWhiteSpace :: "char \<Rightarrow> bool" where
  "isWhiteSpace c = ((of_char c :: nat) \<in> {9, 10, 11, 12, 13, 32})"

definition whiteSpace2 :: "string \<Rightarrow> bool" where
  "whiteSpace2 bs = ((map of_char bs :: nat list) = [194, 160])"

definition whiteSpace3 :: "string \<Rightarrow> bool" where
  "whiteSpace3 bs =
     ((map of_char bs :: nat list) \<in> set
        ([[225, 154, 128]]
         @ map (\<lambda>c. [226, 128, c]) [128 ..< 139]
         @ [[226, 128, 168], [226, 128, 169], [226, 128, 175],
            [226, 129, 159], [227, 128, 128], [239, 187, 191]]))"

text \<open>The string without its leading white space.\<close>

fun skipWhiteSpace :: "string \<Rightarrow> string" where
  "skipWhiteSpace [] = []"
| "skipWhiteSpace (c # cs) =
     (if isWhiteSpace c then skipWhiteSpace cs
      else if whiteSpace2 (take 2 (c # cs)) then skipWhiteSpace (drop 1 cs)
      else if whiteSpace3 (take 3 (c # cs)) then skipWhiteSpace (drop 2 cs)
      else c # cs)"

text \<open>The value of a character as a digit of the given radix (10 or 16).\<close>

definition digitValue :: "nat \<Rightarrow> char \<Rightarrow> nat option" where
  "digitValue radix c =
     (let n = (of_char c :: nat);
          v = (if 48 \<le> n \<and> n \<le> 57 then Some (n - 48)
               else if 97 \<le> n \<and> n \<le> 122 then Some (n - 87)
               else if 65 \<le> n \<and> n \<le> 90 then Some (n - 55)
               else None)
      in case v of
           None \<Rightarrow> None
         | Some d \<Rightarrow> if d < radix then Some d else None)"

definition isDigit :: "nat \<Rightarrow> char \<Rightarrow> bool" where
  "isDigit radix c = (digitValue radix c \<noteq> None)"

definition digitsValue :: "nat \<Rightarrow> string \<Rightarrow> nat" where
  "digitsValue radix z = foldl (\<lambda>acc c. acc * radix + the (digitValue radix c)) 0 z"

text \<open>
  \<open>parseInt(s)\<close> with no radix argument: skip leading white space, read a sign, read a
  \<open>0x\<close>/\<open>0X\<close> prefix (radix 16, else radix 10), take the longest run of digits. With
  no digit the result is \<open>NaN\<close>. The value is kept exact; the comparison with 151 made
  by the caller has the same outcome on the rounded double.
\<close>

definition parseInt :: "string \<Rightarrow> number" where
  "parseInt s =
     (let S = skipWhiteSpace s;
          neg = (take 1 S = ''-'');
          S1 = (if take 1 S = ''+'' \<or> take 1 S = ''-'' then drop 1 S else S);
          hex = (take 2 S1 = ''0x'' \<or> take 2 S1 = ''0X'');
          radix = (if hex then 16 else 10);
          S2 = (if hex then drop 2 S1 else S1);
          Z = takeWhile (isDigit radix) S2
      in if Z = [] then NaN
         else Num ((if neg then - 1 else 1) * int (digitsValue radix Z)))"

section \<open>Evolution chains (lib/api.ts)\<close>

text \<open>
  \<open>parseInt(link.species.url.split("/").filter(Boolean).pop() ?? "0")\<close>
\<close>

definition evoId :: "string \<Rightarrow> number" where
  "evoId u =
     parseInt (case pop (filter_Boolean (split_slash u)) of
                 None \<Rightarrow> ''0''
               | Some seg \<Rightarrow> seg)"

text \<open>The object pushed for a link.\<close>

definition flat_of :: "ChainLink \<Rightarrow> FlatEvolution" where
  "flat_of link =
     \<lparr> flat_name = name (species link),
       flat_url = url (species link),
       minLevel = (case evolution_details link of [] \<Rightarrow> None | d # _ \<Rightarrow> min_level d),
       details = evolution_details link \<rparr>"

text \<open>
  The recursive helper \<open>traverse\<close> pushes onto the array \<open>result\<close> of the enclosing
  call; here the array is passed in and returned. \<open>forEach\<close> is a left fold.
\<close>

fun traverse :: "ChainLink \<Rightarrow> FlatEvolution list \<Rightarrow> FlatEvolution list" where
  "traverse (ChainLink sp ds evs b) result =
     (let link = ChainLink sp ds evs b;
          result1 = (if number_le (evoId (url (species link))) LETS_GO_MAX_POKEMON
                     then result @ [flat_of link]
                     else result)
      in foldl (\<lambda>r child. traverse child r) result1 evs)"

definition flattenEvolutionChain :: "ChainLink \<Rightarrow> FlatEvolution list" where
  "flattenEvolutionChain chain = traverse chain []"

subsection \<open>The specification's reading of the traversal\<close>

text \<open>
  The pre-order listing of a tree, as the specification words it: the root, then each
  child's full subtree in child order.
\<close>

fun preorder :: "ChainLink \<Rightarrow> ChainLink list" where
  "preorder (ChainLink sp ds evs b) = ChainLink sp ds evs b # concat (map preorder evs)"

text \<open>A node is within the bound when the test of \<open>traverse\<close> succeeds on it.\<close>

definition within_bound :: "ChainLink \<Rightarrow> bool" where
  "within_bound link = number_le (evoId (url (species link))) LETS_GO_MAX_POKEMON"

text \<open>
  The trailing segment of a URL: the last non-empty piece between slashes, if there is
  one.
\<close>

definition trailing_segment :: "string \<Rightarrow> string option" where
  "trailing_segment u = (case rev (filter (\<lambda>s. s \<noteq> []) (split_slash u)) of
                           [] \<Rightarrow> None
                         | seg # _ \<Rightarrow> Some seg)"

text \<open>
  A segment that cannot be read as a number: after the leading white space, an optional
  sign and an optional prefix \<open>0x\<close> or \<open>0X\<close>, no digit follows (a decimal digit, or a
  hexadecimal one after the prefix).
\<close>

definition decimal_digit :: "char \<Rightarrow> bool" where
  "decimal_digit c = (c \<in> set ''0123456789'')"

definition hex_digit :: "char \<Rightarrow> bool" where
  "hex_digit c = (c \<in> set ''0123456789abcdefABCDEF'')"

definition unreadable :: "string \<Rightarrow> bool" where
  "unreadable seg =
     (let S = skipWhiteSpace seg;
          body = (if take 1 S = ''+'' \<or> take 1 S = ''-'' then drop 1 S else S)
      in if take 2 body = ''0x'' \<or> take 2 body = ''0X''
         then (case drop 2 body of [] \<Rightarrow> True | c # _ \<Rightarrow> \<not> hex_digit c)
         else (case body of [] \<Rightarrow> True | c # _ \<Rightarrow> \<not> decimal_digit c))"

subsection \<open>Sample chains\<close>

definition no_detail :: "string \<Rightarrow> EvolutionDetail" where
  "no_detail trig =
     \<lparr> trigger = \<lparr> name = trig, url = ''https://pokeapi.co/api/v2/evolution-trigger/'' @ trig @ ''/'' \<rparr>,
       item = None, min_level = None, min_happiness = None, time_of_day = [],
       held_item = None, known_move = None, location = None \<rparr>"

definition species_ref :: "string \<Rightarrow> string \<Rightarrow> NamedAPIResource" where
  "species_ref n i = \<lparr> name = n, url = ''https://pokeapi.co/api/v2/pokemon-species/'' @ i @ ''/'' \<rparr>"

definition item_ref :: "string \<Rightarrow> NamedAPIResource" where
  "item_ref n = \<lparr> name = n, url = ''https://pokeapi.co/api/v2/item/'' @ n @ ''/'' \<rparr>"

definition raichu_link :: ChainLink where
  "raichu_link =
     ChainLink (species_ref ''raichu'' ''26'')
       [(no_detail ''use-item'')\<lparr> item := Some (item_ref ''thunder-stone'') \<rparr>] [] False"

definition pikachu_link :: ChainLink where
  "pikachu_link =
     ChainLink (species_ref ''pikachu'' ''25'')
       [(no_detail ''level-up'')\<lparr> min_happiness := Some 220 \<rparr>] [raichu_link] False"

text \<open>Pichu has number 172, beyond the bound; its evolutions are within it.\<close>

definition pichu_chain :: ChainLink where
  "pichu_chain = ChainLink (species_ref ''pichu'' ''172'') [] [pikachu_link] True"

definition venusaur_link :: ChainLink where
  "venusaur_link =
     ChainLink (species_ref ''venusaur'' ''3'')
       [(no_detail ''level-up'')\<lparr> min_level := Some 32 \<rparr>] [] False"

definition ivysaur_link :: ChainLink where
  "ivysaur_link =
     ChainLink (species_ref ''ivysaur'' ''2'')
       [(no_detail ''level-up'')\<lparr> min_level := Some 16 \<rparr>] [venusaur_link] False"

definition bulbasaur_chain :: ChainLink where
  "bulbasaur_chain = ChainLink (species_ref ''bulbasaur'' ''1'') [] [ivysaur_link] False"

text \<open>A link whose URL ends in a segment that is not a number, and one with no segment.\<close>

definition unparseable_link :: ChainLink where
  "unparseable_link = ChainLink (species_ref ''missingno'' ''abc'') [] [] False"

definition segmentless_link :: ChainLink where
  "segmentless_link = ChainLink \<lparr> name = ''missingno'', url = ''/'' \<rparr> [] [] False"

text \<open>
  Links whose URLs end in a sign alone, a hexadecimal prefix alone and a blank, each with
  Ivysaur and Venusaur below it; a link whose segment is a no-break space before 25; a
  link whose segment is \<open>abc\<close>, with Raichu below it; and a tree that holds them all,
  with the segmentless link.
\<close>

definition sign_only_link :: ChainLink where
  "sign_only_link = ChainLink (species_ref ''missingno'' ''-'') [] [ivysaur_link] False"

definition prefix_only_link :: ChainLink where
  "prefix_only_link = ChainLink (species_ref ''missingno'' ''0x'') [] [ivysaur_link] False"

definition blank_link :: ChainLink where
  "blank_link = ChainLink (species_ref ''missingno'' '' '') [] [ivysaur_link] False"

definition nbsp_25 :: string where
  "nbsp_25 = [char_of (194 :: nat), char_of (160 :: nat)] @ ''25''"

definition nbsp_link :: ChainLink where
  "nbsp_link = ChainLink (species_ref ''pikachu'' nbsp_25) [] [] False"

definition letters_link :: ChainLink where
  "letters_link = ChainLink (species_ref ''missingno'' ''abc'') [] [raichu_link] False"

definition broken_chain :: ChainLink where
  "broken_chain =
     ChainLink (species_ref ''bulbasaur'' ''1'') []
       [sign_only_link, prefix_only_link, blank_link, segmentless_link, nbsp_link,
        letters_link]
       False"

section \<open>Evolution labels (lib/api.ts)\<close>

text \<open>
  \<open>str.charAt(0).toUpperCase()\<close> on one character: the ASCII lower-case letters move
  to upper case.
\<close>

definition toUpperCase_char :: "char \<Rightarrow> char" where
  "toUpperCase_char c =
     (let n = (of_char c :: nat) in if 97 \<le> n \<and> n \<le> 122 then char_of (n - 32) else c)"

definition capitalize :: "string \<Rightarrow> string" where
  "capitalize str = (case str of [] \<Rightarrow> [] | c # cs \<Rightarrow> toUpperCase_char c # cs)"

text \<open>\<open>name.replace(/-/g, " ")\<close> followed by \<open>capitalize\<close>.\<close>

definition humanize :: "string \<Rightarrow> string" where
  "humanize nm = capitalize (map (\<lambda>c. if c = CHR ''-'' then CHR '' '' else c) nm)"

text \<open>
  The decimal numeral of an integer, as a template literal prints a number (for the
  integers below \<open>10^21\<close> in absolute value, which print without an exponent).
\<close>

fun digits :: "nat \<Rightarrow> string" where
  "digits n =
     (if n < 10 then [char_of (48 + n)]
      else digits (n div 10) @ [char_of (48 + n mod 10)])"

declare digits.simps [simp del]

definition number_toString :: "int \<Rightarrow> string" where
  "number_toString n = (if n < 0 then CHR ''-'' # digits (nat (- n)) else digits (nat n))"

text \<open>A \<open>number | null\<close> used as a condition: \<open>null\<close> and 0 are falsy.\<close>

definition truthy :: "int option \<Rightarrow> int option" where
  "truthy v = (case v of None \<Rightarrow> None | Some n \<Rightarrow> if n = 0 then None else Some n)"

text \<open>The sign \<open>>=\<close> of the happiness label (U+2265), as its three UTF-8 bytes.\<close>

definition ge_sign :: string where
  "ge_sign = [char_of (226 :: nat), char_of (137 :: nat), char_of (165 :: nat)]"

definition formatEvolutionDetails :: "EvolutionDetail list \<Rightarrow> string" where
  "formatEvolutionDetails ds =
     (case ds of
        [] \<Rightarrow> []
      | d # _ \<Rightarrow>
          if name (trigger d) = ''level-up'' then
            (case truthy (min_level d) of
               Some lv \<Rightarrow> ''Lv. '' @ number_toString lv
             | None \<Rightarrow>
                (case truthy (min_happiness d) of
                   Some h \<Rightarrow> ''Happiness '' @ ge_sign @ '' '' @ number_toString h
                 | None \<Rightarrow>
                    if time_of_day d \<noteq> [] then capitalize (time_of_day d)
                    else (case location d of
                            Some loc \<Rightarrow> capitalize (name loc)
                          | None \<Rightarrow> humanize (name (trigger d)))))
          else if name (trigger d) = ''use-item'' then
            (case item d of
               Some it \<Rightarrow> humanize (name it)
             | None \<Rightarrow> humanize (name (trigger d)))
          else if name (trigger d) = ''trade'' then
            (case held_item d of
               Some it \<Rightarrow> ''Trade holding '' @ humanize (name it)
             | None \<Rightarrow> ''Trade'')
          else humanize (name (trigger d)))"

text \<open>
  \<open>formatName\<close>, the sibling helper that capitalises every word of a hyphenated name:
  \<open>str.split("-").map(capitalize).join(" ")\<close>.
\<close>

fun split_hyphen :: "string \<Rightarrow> string list" where
  "split_hyphen [] = [[]]"
| "split_hyphen (c # cs) =
     (if c = CHR ''-'' then [] # split_hyphen cs
      else (case split_hyphen cs of
              [] \<Rightarrow> [[c]]
            | seg # segs \<Rightarrow> (c # seg) # segs))"

fun join_space :: "string list \<Rightarrow> string" where
  "join_space [] = []"
| "join_space [s] = s"
| "join_space (s # t # ss) = s @ '' '' @ join_space (t # ss)"

definition formatName :: "string \<Rightarrow> string" where
  "formatName str = join_space (map capitalize (split_hyphen str))"

subsection \<open>Sample evolution details\<close>

definition level16_detail :: EvolutionDetail where
  "level16_detail = (no_detail ''level-up'')\<lparr> min_level := Some 16 \<rparr>"

definition thunder_stone_detail :: EvolutionDetail where
  "thunder_stone_detail = (no_detail ''use-item'')\<lparr> item := Some (item_ref ''thunder-stone'') \<rparr>"

definition trade_detail :: EvolutionDetail where
  "trade_detail = no_detail ''trade''"

definition metal_coat_detail :: EvolutionDetail where
  "metal_coat_detail = (no_detail ''trade'')\<lparr> held_item := Some (item_ref ''metal-coat'') \<rparr>"

section \<open>Type effectiveness (lib/api.ts)\<close>

record TypeDamageRelations =
  double_damage_from :: "NamedAPIResource list"
  double_damage_to :: "NamedAPIResource list"
  half_damage_from :: "NamedAPIResource list"
  half_damage_to :: "NamedAPIResource list"
  no_damage_from :: "NamedAPIResource list"
  no_damage_to :: "NamedAPIResource list"

record TypePokemon =
  pokemon :: NamedAPIResource
  slot :: int

record PokemonTypeData =
  type_id :: int
  type_name :: string
  damage_relations :: TypeDamageRelations
  type_pokemon :: "TypePokemon list"

text \<open>
  A multiplier is a double. The function only ever stores \<open>NaN\<close>, or a number that
  arises from 1 and 0 by doubling and halving; such a number is kept as a \<^typ>\<open>rat\<close>,
  the exact value the double holds (short of the overflow that takes more than a
  thousand entries for one name).
\<close>

datatype double = DNaN | Dbl rat

text \<open>
  The result \<open>Record<string, number>\<close> starts as the object literal \<open>{}\<close>. Its own
  properties are a map from names to doubles; a name never assigned is absent.
\<close>

type_synonym effectiveness = "string \<rightharpoonup> double"

text \<open>
  The object literal inherits the properties of \<open>Object.prototype\<close>: eleven
  functions, which are writable data properties, and the accessor \<open>__proto__\<close>.
\<close>

definition Object_prototype_keys :: "string list" where
  "Object_prototype_keys =
     [''constructor'', ''hasOwnProperty'', ''isPrototypeOf'', ''propertyIsEnumerable'',
      ''toLocaleString'', ''toString'', ''valueOf'', ''__defineGetter__'',
      ''__defineSetter__'', ''__lookupGetter__'', ''__lookupSetter__'', ''__proto__'']"

text \<open>
  What \<open>effectiveness[name]\<close> reads: the own property when there is one, else the
  inherited function or object, else \<open>undefined\<close>.
\<close>

datatype jsvalue = Undefined | Number double | Inherited

definition get_property :: "effectiveness \<Rightarrow> string \<Rightarrow> jsvalue" where
  "get_property e nm =
     (case e nm of
        Some v \<Rightarrow> Number v
      | None \<Rightarrow> if nm \<in> set Object_prototype_keys then Inherited else Undefined)"

text \<open>\<open>v ?? 1\<close>: only \<open>undefined\<close> (or \<open>null\<close>) gives way to 1.\<close>

fun or_1 :: "jsvalue \<Rightarrow> jsvalue" where
  "or_1 Undefined = Number (Dbl 1)"
| "or_1 (Number v) = Number v"
| "or_1 Inherited = Inherited"

text \<open>
  \<open>v * k\<close> for a constant \<open>k\<close>: a function or an object converts to \<open>NaN\<close>, as does
  \<open>undefined\<close>, and \<open>NaN\<close> times anything is \<open>NaN\<close>.
\<close>

fun times_const :: "jsvalue \<Rightarrow> rat \<Rightarrow> double" where
  "times_const (Number (Dbl v)) k = Dbl (v * k)"
| "times_const (Number DNaN) k = DNaN"
| "times_const Inherited k = DNaN"
| "times_const Undefined k = DNaN"

text \<open>
  \<open>effectiveness[name] = v\<close> for a number \<open>v\<close>: the assignment creates or updates the
  own property, except for \<open>__proto__\<close>, whose inherited setter ignores a number.
\<close>

definition set_property :: "effectiveness \<Rightarrow> string \<Rightarrow> double \<Rightarrow> effectiveness" where
  "set_property e nm v = (if nm = ''__proto__'' then e else e(nm \<mapsto> v))"

text \<open>One pass of the loop body: the three \<open>forEach\<close> calls over one table, in order.\<close>

definition apply_type :: "effectiveness \<Rightarrow> PokemonTypeData \<Rightarrow> effectiveness" where
  "apply_type eff typeData =
     (let rel = damage_relations typeData;
          eff1 = foldl (\<lambda>e r. set_property e (name r)
                                  (times_const (or_1 (get_property e (name r))) 2))
                   eff (double_damage_from rel);
          eff2 = foldl (\<lambda>e r. set_property e (name r)
                                  (times_const (or_1 (get_property e (name r))) (1 / 2)))
                   eff1 (half_damage_from rel);
          eff3 = foldl (\<lambda>e r. set_property e (name r) (Dbl 0)) eff2 (no_damage_from rel)
      in eff3)"

definition calculateTypeEffectiveness :: "PokemonTypeData list \<Rightarrow> effectiveness" where
  "calculateTypeEffectiveness typeDataList = foldl apply_type Map.empty typeDataList"

subsection \<open>Vocabulary of the claims\<close>

text \<open>The type names of one of the lists of a table.\<close>

definition names :: "NamedAPIResource list \<Rightarrow> string list" where
  "names rs = map name rs"

text \<open>The type names a table mentions among the types it receives damage from.\<close>

definition from_names :: "PokemonTypeData \<Rightarrow> string list" where
  "from_names t =
     names (double_damage_from (damage_relations t))
       @ names (half_damage_from (damage_relations t))
       @ names (no_damage_from (damage_relations t))"

text \<open>
  A table is valid when each type name occurs at most once across its
  \<open>double_damage_from\<close>, \<open>half_damage_from\<close> and \<open>no_damage_from\<close> lists.
\<close>

definition valid_relations :: "PokemonTypeData \<Rightarrow> bool" where
  "valid_relations t = distinct (from_names t)"

text \<open>
  What a single table says about an attacking type: 0, one half, 2, or nothing.
\<close>

definition raw_relation :: "PokemonTypeData \<Rightarrow> string \<Rightarrow> rat option" where
  "raw_relation t x =
     (if x \<in> set (names (no_damage_from (damage_relations t))) then Some 0
      else if x \<in> set (names (half_damage_from (damage_relations t))) then Some (1 / 2)
      else if x \<in> set (names (double_damage_from (damage_relations t))) then Some 2
      else None)"

text \<open>
  The factor one pass contributes for an attacking type: 0 when the type is in
  \<open>no_damage_from\<close>, else one doubling per occurrence in \<open>double_damage_from\<close> and one
  halving per occurrence in \<open>half_damage_from\<close>.
\<close>

definition factor :: "PokemonTypeData \<Rightarrow> string \<Rightarrow> rat" where
  "factor t x =
     (if x \<in> set (names (no_damage_from (damage_relations t))) then 0
      else 2 ^ count_list (names (double_damage_from (damage_relations t))) x
           * (1 / 2) ^ count_list (names (half_damage_from (damage_relations t))) x)"

text \<open>The number a pass reads for a name before it multiplies: \<open>(effectiveness[name] ?? 1) * 1\<close>.\<close>

definition as_number :: "effectiveness \<Rightarrow> string \<Rightarrow> double" where
  "as_number e x = times_const (or_1 (get_property e x)) 1"

text \<open>A double times a constant.\<close>

fun scale :: "double \<Rightarrow> rat \<Rightarrow> double" where
  "scale DNaN k = DNaN"
| "scale (Dbl v) k = Dbl (v * k)"

text \<open>
  The effect of passes with total factor \<open>f\<close> on a double: the factor 0 stands for an
  assignment of 0, which replaces even \<open>NaN\<close>; any other factor multiplies.
\<close>

definition absorb :: "double \<Rightarrow> rat \<Rightarrow> double" where
  "absorb d f = (if f = 0 then Dbl 0 else scale d f)"

subsection \<open>Sample tables\<close>

definition type_ref :: "string \<Rightarrow> NamedAPIResource" where
  "type_ref n = \<lparr> name = n, url = ''https://pokeapi.co/api/v2/type/'' @ n @ ''/'' \<rparr>"

definition water_type :: PokemonTypeData where
  "water_type =
     \<lparr> type_id = 11, type_name = ''water'',
       damage_relations =
         \<lparr> double_damage_from = map type_ref [''electric'', ''grass''],
           double_damage_to = map type_ref [''ground'', ''rock'', ''fire''],
           half_damage_from = map type_ref [''steel'', ''fire'', ''water'', ''ice''],
           half_damage_to = map type_ref [''water'', ''grass'', ''dragon''],
           no_damage_from = [],
           no_damage_to = [] \<rparr>,
       type_pokemon = [] \<rparr>"

definition ground_type :: PokemonTypeData where
  "ground_type =
     \<lparr> type_id = 5, type_name = ''ground'',
       damage_relations =
         \<lparr> double_damage_from = map type_ref [''water'', ''grass'', ''ice''],
           double_damage_to = map type_ref [''poison'', ''rock'', ''steel'', ''fire'', ''electric''],
           half_damage_from = map type_ref [''poison'', ''rock''],
           half_damage_to = map type_ref [''bug'', ''grass''],
           no_damage_from = map type_ref [''electric''],
           no_damage_to = map type_ref [''flying''] \<rparr>,
       type_pokemon = [] \<rparr>"


section \<open>Properties of the flattening\<close>

lemma foldl_traverse:
  assumes "\<And>c r. c \<in> set evs \<Longrightarrow> traverse c r = r @ traverse c []"
  shows "foldl (\<lambda>r child. traverse child r) acc evs = acc @ concat (map (\<lambda>c. traverse c []) evs)"
  using assms
proof (induction evs arbitrary: acc)
  case Nil
  show ?case by simp
next
  case (Cons e evs)
  have hd_eq: "traverse e acc = acc @ traverse e []"
    by (rule Cons.prems) simp
  have tl_eq: "foldl (\<lambda>r child. traverse child r) (acc @ traverse e []) evs
        = (acc @ traverse e []) @ concat (map (\<lambda>c. traverse c []) evs)"
  proof (rule Cons.IH)
    fix c r assume "c \<in> set evs"
    then show "traverse c r = r @ traverse c []"
      by (intro Cons.prems) simp
  qed
  show ?case
    by (simp only: foldl_Cons hd_eq tl_eq list.map concat.simps append_assoc)
qed

lemma traverse_append: "traverse link acc = acc @ traverse link []"
proof (induction link acc rule: traverse.induct)
  case (1 sp ds evs b result)
  let ?link = "ChainLink sp ds evs b"
  let ?own = "if within_bound ?link then [flat_of ?link] else []"
  have ih: "traverse c r = r @ traverse c []" if "c \<in> set evs" for c r
    using that by (rule "1.IH" [OF refl refl])
  have a: "traverse ?link acc = (acc @ ?own) @ concat (map (\<lambda>c. traverse c []) evs)" for acc
    by (simp add: Let_def within_bound_def foldl_traverse [OF ih])
  show ?case
    by (simp only: a [of result] a [of "[]"] append_assoc append_Nil)
qed

lemma traverse_children:
  "traverse (ChainLink sp ds evs b) result =
     (result @ (if within_bound (ChainLink sp ds evs b) then [flat_of (ChainLink sp ds evs b)] else []))
       @ concat (map (\<lambda>c. traverse c []) evs)"
  by (simp add: Let_def within_bound_def foldl_traverse [OF traverse_append])

text \<open>The result for a tree is the root's own entry followed by the results of its children.\<close>

lemma flatten_unfold:
  "flattenEvolutionChain chain =
     (if within_bound chain then [flat_of chain] else [])
       @ concat (map flattenEvolutionChain (evolves_to chain))"
proof (cases chain)
  case (ChainLink sp ds evs b)
  have "(\<lambda>c. traverse c []) = flattenEvolutionChain"
    by (simp add: fun_eq_iff flattenEvolutionChain_def)
  with traverse_children [of sp ds evs b "[]"] ChainLink show ?thesis
    by (simp add: flattenEvolutionChain_def)
qed

lemma filter_concat_map: "filter P (concat xss) = concat (map (filter P) xss)"
  by (induction xss) simp_all

lemma flatten_preorder:
  "flattenEvolutionChain chain = map flat_of (filter within_bound (preorder chain))"
proof (induction chain)
  case (ChainLink sp ds evs b)
  have kids: "map flattenEvolutionChain evs = map (\<lambda>c. map flat_of (filter within_bound (preorder c))) evs"
    using ChainLink.IH by simp
  show ?case
    by (subst flatten_unfold) (simp add: kids map_concat filter_concat_map comp_def)
qed

lemma flat_url_within_bound:
  "s \<in> set (flattenEvolutionChain chain) \<Longrightarrow> number_le (evoId (flat_url s)) LETS_GO_MAX_POKEMON"
  by (auto simp: flatten_preorder within_bound_def flat_of_def)

lemma number_le_Num: "number_le x b \<Longrightarrow> \<exists>n. x = Num n \<and> n \<le> b"
  by (cases x) simp_all

lemma within_bound_emitted:
  "link \<in> set (preorder chain) \<Longrightarrow> within_bound link \<Longrightarrow> flat_of link \<in> set (flattenEvolutionChain chain)"
  by (simp add: flatten_preorder)

text \<open>
  C1. The output lists the emitted stages in pre-order of the input tree: it is the
  pre-order listing of the tree with the nodes beyond the bound left out, so the root's
  stage (if emitted) comes first and the flattened subtree of each child comes whole
  before that of the next sibling.
\<close>

theorem flatten_is_preorder:
  "flattenEvolutionChain chain = map flat_of (filter within_bound (preorder chain))
   \<and> flattenEvolutionChain chain =
       (if within_bound chain then [flat_of chain] else [])
         @ concat (map flattenEvolutionChain (evolves_to chain))"
  using flatten_preorder [of chain] flatten_unfold [of chain] by blast

theorem flatten_is_preorder_witness:
  "map flat_name (flattenEvolutionChain pichu_chain) = [''pikachu'', ''raichu'']
   \<and> map flat_name (map flat_of (filter within_bound (preorder pichu_chain))) = [''pikachu'', ''raichu'']"
proof -
  have "map flat_name (flattenEvolutionChain pichu_chain) = [''pikachu'', ''raichu'']"
    by code_simp
  with flatten_is_preorder [of pichu_chain] show ?thesis by simp
qed

text \<open>
  C2. No emitted stage has a numeric ID (read from the trailing non-empty segment of its
  species URL) above the bound, and every node of the tree that is within the bound is
  emitted, whether or not its ancestors were.
\<close>

theorem flatten_filtering:
  "(\<forall>s \<in> set (flattenEvolutionChain chain).
      \<exists>n. evoId (flat_url s) = Num n \<and> n \<le> LETS_GO_MAX_POKEMON)
   \<and> (\<forall>link \<in> set (preorder chain).
        within_bound link \<longrightarrow> flat_of link \<in> set (flattenEvolutionChain chain))"
  using flat_url_within_bound number_le_Num within_bound_emitted by blast

theorem flatten_filtering_witness:
  "pikachu_link \<in> set (preorder pichu_chain) \<and> within_bound pikachu_link
   \<and> \<not> within_bound pichu_chain
   \<and> flat_of pikachu_link \<in> set (flattenEvolutionChain pichu_chain)
   \<and> (\<exists>n. evoId (flat_url (flat_of pikachu_link)) = Num n \<and> n \<le> LETS_GO_MAX_POKEMON)"
proof -
  have a: "pikachu_link \<in> set (preorder pichu_chain)" by code_simp
  have b: "within_bound pikachu_link" by code_simp
  have c: "\<not> within_bound pichu_chain" by code_simp
  from a b flatten_filtering [of pichu_chain]
  have d: "flat_of pikachu_link \<in> set (flattenEvolutionChain pichu_chain)" by blast
  with flatten_filtering [of pichu_chain]
  have "\<exists>n. evoId (flat_url (flat_of pikachu_link)) = Num n \<and> n \<le> LETS_GO_MAX_POKEMON" by blast
  with a b c d show ?thesis by blast
qed

text \<open>
  C3. The stages carry, position by position, the \<open>evolution_details\<close> of the nodes
  they were emitted for, unchanged; and when the root is emitted, the first stage carries
  the root's own details, hence none when the root has none.
\<close>

theorem flatten_details:
  "map details (flattenEvolutionChain chain)
     = map evolution_details (filter within_bound (preorder chain))
   \<and> (within_bound chain \<longrightarrow>
        flattenEvolutionChain chain \<noteq> []
        \<and> details (hd (flattenEvolutionChain chain)) = evolution_details chain)
   \<and> (within_bound chain \<and> evolution_details chain = [] \<longrightarrow>
        details (hd (flattenEvolutionChain chain)) = [])"
proof -
  have "map details (flattenEvolutionChain chain)
          = map evolution_details (filter within_bound (preorder chain))"
    by (simp add: flatten_preorder flat_of_def comp_def)
  moreover have "flattenEvolutionChain chain \<noteq> []
      \<and> details (hd (flattenEvolutionChain chain)) = evolution_details chain"
    if "within_bound chain"
    using that by (subst (1 2) flatten_unfold) (simp add: flat_of_def)
  ultimately show ?thesis by simp
qed

theorem flatten_details_witness:
  "within_bound bulbasaur_chain \<and> evolution_details bulbasaur_chain = []
   \<and> details (hd (flattenEvolutionChain bulbasaur_chain)) = []
   \<and> map details (flattenEvolutionChain bulbasaur_chain)
       = [[], evolution_details ivysaur_link, evolution_details venusaur_link]"
proof -
  have a: "within_bound bulbasaur_chain" by code_simp
  have b: "evolution_details bulbasaur_chain = []" by (simp add: bulbasaur_chain_def)
  have c: "map evolution_details (filter within_bound (preorder bulbasaur_chain))
             = [[], evolution_details ivysaur_link, evolution_details venusaur_link]"
    by code_simp
  from a b c flatten_details [of bulbasaur_chain] show ?thesis by simp
qed

text \<open>
  C4, as stated, fails: a link whose URL ends in the segment \<open>abc\<close> gets the ID
  \<open>NaN\<close>, not 0, and is left out of the result.
\<close>

theorem unparseable_segment_counterexample:
  "evoId (url (species unparseable_link)) \<noteq> Num 0
   \<and> flat_of unparseable_link \<notin> set (flattenEvolutionChain unparseable_link)"
  by code_simp

text \<open>The digits that \<open>parseInt\<close> reads are the decimal and the hexadecimal digits.\<close>

lemma isDigit_decimal: "isDigit 10 c = decimal_digit c"
proof -
  have "\<forall>c. isDigit 10 c = decimal_digit c" by code_simp
  then show ?thesis by blast
qed

lemma isDigit_hex: "isDigit 16 c = hex_digit c"
proof -
  have "\<forall>c. isDigit 16 c = hex_digit c" by code_simp
  then show ?thesis by blast
qed

lemma no_leading_digit:
  "(takeWhile P xs = []) = (case xs of [] \<Rightarrow> True | c # _ \<Rightarrow> \<not> P c)"
  by (cases xs) simp_all

text \<open>\<open>parseInt\<close> gives \<open>NaN\<close> exactly on the unreadable segments.\<close>

lemma parseInt_NaN_iff: "parseInt seg = NaN \<longleftrightarrow> unreadable seg"
proof -
  define body where
    "body = (if take 1 (skipWhiteSpace seg) = ''+'' \<or> take 1 (skipWhiteSpace seg) = ''-''
             then drop 1 (skipWhiteSpace seg) else skipWhiteSpace seg)"
  show ?thesis
  proof (cases "take 2 body = ''0x'' \<or> take 2 body = ''0X''")
    case True
    then have "parseInt seg = NaN \<longleftrightarrow> takeWhile (isDigit 16) (drop 2 body) = []"
      unfolding parseInt_def Let_def body_def [symmetric] by simp
    moreover from True have "unreadable seg \<longleftrightarrow>
        (case drop 2 body of [] \<Rightarrow> True | c # _ \<Rightarrow> \<not> hex_digit c)"
      unfolding unreadable_def Let_def body_def [symmetric] by simp
    ultimately show ?thesis
      by (simp only: no_leading_digit isDigit_hex)
  next
    case False
    then have "parseInt seg = NaN \<longleftrightarrow> takeWhile (isDigit 10) body = []"
      unfolding parseInt_def Let_def body_def [symmetric] by simp
    moreover from False have "unreadable seg \<longleftrightarrow>
        (case body of [] \<Rightarrow> True | c # _ \<Rightarrow> \<not> decimal_digit c)"
      unfolding unreadable_def Let_def body_def [symmetric] by simp
    ultimately show ?thesis
      by (simp only: no_leading_digit isDigit_decimal)
  qed
qed

lemma pop_trailing_segment: "pop (filter_Boolean (split_slash u)) = trailing_segment u"
  unfolding pop_def filter_Boolean_def trailing_segment_def
  by (cases "filter (\<lambda>s. s \<noteq> []) (split_slash u)" rule: rev_cases) simp_all

lemma evoId_missing: "trailing_segment u = None \<Longrightarrow> evoId u = Num 0"
proof -
  assume "trailing_segment u = None"
  then have "evoId u = parseInt ''0''"
    by (simp add: evoId_def pop_trailing_segment)
  also have "parseInt ''0'' = Num 0" by code_simp
  finally show ?thesis .
qed

lemma evoId_unreadable: "trailing_segment u = Some seg \<Longrightarrow> unreadable seg \<Longrightarrow> evoId u = NaN"
  by (simp add: evoId_def pop_trailing_segment parseInt_NaN_iff)

text \<open>The nodes of a subtree are nodes of the tree.\<close>

lemma preorder_subtree:
  "link \<in> set (preorder chain) \<Longrightarrow> set (preorder link) \<subseteq> set (preorder chain)"
proof (induction chain)
  case (ChainLink sp ds evs b)
  show ?case
  proof (cases "link = ChainLink sp ds evs b")
    case True
    then show ?thesis by simp
  next
    case False
    with ChainLink.prems obtain c where c: "c \<in> set evs" and l: "link \<in> set (preorder c)"
      by auto
    from ChainLink.IH [OF c l] c show ?thesis by auto
  qed
qed

lemma NaN_not_emitted:
  assumes "evoId (url (species link)) = NaN"
  shows "flat_of link \<notin> set (flattenEvolutionChain chain)"
proof
  assume "flat_of link \<in> set (flattenEvolutionChain chain)"
  then have "number_le (evoId (flat_url (flat_of link))) LETS_GO_MAX_POKEMON"
    by (rule flat_url_within_bound)
  with assms show False by (simp add: flat_of_def)
qed

text \<open>
  C4, amended. A node whose species URL has no non-empty segment gets the numeric ID 0
  and is emitted. A node whose trailing segment cannot be read as a number (after
  optional white space, an optional sign and an optional prefix \<open>0x\<close> or \<open>0X\<close> no
  digit follows) gets \<open>NaN\<close>; the comparison with the bound is then false and the
  node is left out, without a failure: its own result is that of its children, and every
  node below it that is within the bound is still emitted.
\<close>

theorem missing_segment_is_zero:
  "(link \<in> set (preorder chain) \<and> trailing_segment (url (species link)) = None
      \<longrightarrow> evoId (url (species link)) = Num 0
          \<and> flat_of link \<in> set (flattenEvolutionChain chain))
   \<and> (link \<in> set (preorder chain) \<and> trailing_segment (url (species link)) = Some seg
        \<and> unreadable seg
      \<longrightarrow> evoId (url (species link)) = NaN
          \<and> flat_of link \<notin> set (flattenEvolutionChain chain)
          \<and> flattenEvolutionChain link = concat (map flattenEvolutionChain (evolves_to link))
          \<and> (\<forall>d \<in> set (preorder link).
                within_bound d \<longrightarrow> flat_of d \<in> set (flattenEvolutionChain chain)))"
proof (intro conjI impI)
  assume h: "link \<in> set (preorder chain) \<and> trailing_segment (url (species link)) = None"
  then show z: "evoId (url (species link)) = Num 0"
    by (simp add: evoId_missing)
  then have "within_bound link"
    by (simp add: within_bound_def LETS_GO_MAX_POKEMON_def)
  with h show "flat_of link \<in> set (flattenEvolutionChain chain)"
    by (simp add: within_bound_emitted)
next
  assume h: "link \<in> set (preorder chain) \<and> trailing_segment (url (species link)) = Some seg
               \<and> unreadable seg"
  then show n: "evoId (url (species link)) = NaN"
    by (simp add: evoId_unreadable)
  then show "flat_of link \<notin> set (flattenEvolutionChain chain)"
    by (rule NaN_not_emitted)
  from n have "\<not> within_bound link"
    by (simp add: within_bound_def)
  then show "flattenEvolutionChain link = concat (map flattenEvolutionChain (evolves_to link))"
    by (subst flatten_unfold) simp
  show "\<forall>d \<in> set (preorder link).
          within_bound d \<longrightarrow> flat_of d \<in> set (flattenEvolutionChain chain)"
  proof (intro ballI impI)
    fix d assume "d \<in> set (preorder link)" and w: "within_bound d"
    with h preorder_subtree [of link chain] have "d \<in> set (preorder chain)" by blast
    then show "flat_of d \<in> set (flattenEvolutionChain chain)"
      using w by (rule within_bound_emitted)
  qed
qed

theorem missing_segment_is_zero_witness:
  "segmentless_link \<in> set (preorder broken_chain)
   \<and> trailing_segment (url (species segmentless_link)) = None
   \<and> evoId (url (species segmentless_link)) = Num 0
   \<and> flat_of segmentless_link \<in> set (flattenEvolutionChain broken_chain)
   \<and> letters_link \<in> set (preorder broken_chain)
   \<and> trailing_segment (url (species letters_link)) = Some ''abc''
   \<and> unreadable ''abc''
   \<and> evoId (url (species letters_link)) = NaN
   \<and> flat_of letters_link \<notin> set (flattenEvolutionChain broken_chain)
   \<and> flattenEvolutionChain letters_link = [flat_of raichu_link]
   \<and> raichu_link \<in> set (preorder letters_link) \<and> within_bound raichu_link
   \<and> flat_of raichu_link \<in> set (flattenEvolutionChain broken_chain)
   \<and> map (\<lambda>l. evoId (url (species l))) [sign_only_link, prefix_only_link, blank_link, nbsp_link]
       = [NaN, NaN, NaN, Num 25]
   \<and> map unreadable [''-'', ''0x'', '' '', nbsp_25, ''25abc'', ''0x1f''] 
       = [True, True, True, False, False, False]
   \<and> map flat_name (flattenEvolutionChain broken_chain)
       = [''bulbasaur'', ''ivysaur'', ''venusaur'', ''ivysaur'', ''venusaur'',
          ''ivysaur'', ''venusaur'', ''missingno'', ''pikachu'', ''raichu'']"
proof -
  have a: "segmentless_link \<in> set (preorder broken_chain)" by code_simp
  have b: "trailing_segment (url (species segmentless_link)) = None" by code_simp
  have c: "letters_link \<in> set (preorder broken_chain)" by code_simp
  have d: "trailing_segment (url (species letters_link)) = Some ''abc''" by code_simp
  have e: "unreadable ''abc''" by code_simp
  have f: "raichu_link \<in> set (preorder letters_link)" by code_simp
  have g: "within_bound raichu_link" by code_simp
  have k: "concat (map flattenEvolutionChain (evolves_to letters_link)) = [flat_of raichu_link]"
    by code_simp
  have l: "map (\<lambda>l. evoId (url (species l))) [sign_only_link, prefix_only_link, blank_link, nbsp_link]
             = [NaN, NaN, NaN, Num 25]" by code_simp
  have m: "map unreadable [''-'', ''0x'', '' '', nbsp_25, ''25abc'', ''0x1f''] 
             = [True, True, True, False, False, False]" by code_simp
  have n: "map flat_name (flattenEvolutionChain broken_chain)
             = [''bulbasaur'', ''ivysaur'', ''venusaur'', ''ivysaur'', ''venusaur'',
                ''ivysaur'', ''venusaur'', ''missingno'', ''pikachu'', ''raichu'']" by code_simp
  from a b missing_segment_is_zero [of segmentless_link broken_chain]
  have p: "evoId (url (species segmentless_link)) = Num 0
           \<and> flat_of segmentless_link \<in> set (flattenEvolutionChain broken_chain)" by blast
  from c d e missing_segment_is_zero [of letters_link broken_chain "''abc''"]
  have q: "evoId (url (species letters_link)) = NaN
           \<and> flat_of letters_link \<notin> set (flattenEvolutionChain broken_chain)
           \<and> flattenEvolutionChain letters_link
               = concat (map flattenEvolutionChain (evolves_to letters_link))
           \<and> (\<forall>d \<in> set (preorder letters_link).
                within_bound d \<longrightarrow> flat_of d \<in> set (flattenEvolutionChain broken_chain))"
    by blast
  with f g have r: "flat_of raichu_link \<in> set (flattenEvolutionChain broken_chain)" by blast
  from q k have s: "flattenEvolutionChain letters_link = [flat_of raichu_link]" by simp
  from a b c d e f g l m n p q r s show ?thesis by blast
qed

section \<open>Properties of the labels\<close>

text \<open>
  C9. The labels the code returns at the five inputs of the claim. Three are as claimed;
  the two item names come back with only their first letter in upper case
  (\<open>Thunder stone\<close>, \<open>Trade holding Metal coat\<close>), where the claim and the comments of
  \<open>formatEvolutionDetails\<close> say \<open>Thunder Stone\<close>. The sibling \<open>formatName\<close>
  produces the claimed spelling.
\<close>

theorem formatEvolutionDetails_labels:
  "formatEvolutionDetails [level16_detail] = ''Lv. 16''
   \<and> formatEvolutionDetails [thunder_stone_detail] = ''Thunder stone''
   \<and> formatEvolutionDetails [thunder_stone_detail] \<noteq> ''Thunder Stone''
   \<and> formatEvolutionDetails [trade_detail] = ''Trade''
   \<and> formatEvolutionDetails [metal_coat_detail] = ''Trade holding Metal coat''
   \<and> formatEvolutionDetails [metal_coat_detail] \<noteq> ''Trade holding Metal Coat''
   \<and> formatEvolutionDetails [] = ''''
   \<and> formatName ''thunder-stone'' = ''Thunder Stone''"
  by code_simp

section \<open>Properties of the effectiveness map\<close>

lemma times_const_Number: "times_const (Number d) k = scale d k"
  by (cases d) simp_all

lemma scale_one: "scale d 1 = d"
  by (cases d) simp_all

lemma read_times: "times_const (or_1 (get_property e x)) k = scale (as_number e x) k"
  by (simp add: as_number_def get_property_def times_const_Number scale_one split: option.split)

lemma as_number_Some: "e x = Some v \<Longrightarrow> as_number e x = v"
  by (simp add: as_number_def get_property_def times_const_Number scale_one)

lemma as_number_same: "e' x = e x \<Longrightarrow> as_number e' x = as_number e x"
  by (simp add: as_number_def get_property_def)

lemma as_number_if:
  assumes "e' x = (if C then Some v else e x)"
  shows "as_number e' x = (if C then v else as_number e x)"
proof (cases C)
  case True
  with assms have "e' x = Some v" by simp
  then have "as_number e' x = v" by (rule as_number_Some)
  with True show ?thesis by simp
next
  case False
  with assms have "e' x = e x" by simp
  then have "as_number e' x = as_number e x" by (rule as_number_same)
  with False show ?thesis by simp
qed

lemma as_number_empty:
  "as_number Map.empty x = (if x \<in> set Object_prototype_keys then DNaN else Dbl 1)"
  by (simp add: as_number_def get_property_def)

lemma scale_scale: "scale (scale d a) b = scale d (a * b)"
  by (cases d) (simp_all add: mult.assoc)

lemma absorb_absorb: "absorb (absorb d f) g = absorb d (f * g)"
  by (cases d) (simp_all add: absorb_def mult.assoc)

lemma absorb_one: "absorb d 1 = d"
  by (simp add: absorb_def scale_one)

lemma set_property_lookup:
  "set_property e y v x = (if x = y \<and> y \<noteq> ''__proto__'' then Some v else e x)"
  by (simp add: set_property_def)

text \<open>The effect of one \<open>forEach\<close> on the entry of a name.\<close>

lemma foldl_scale:
  "foldl (\<lambda>e r. set_property e (name r) (times_const (or_1 (get_property e (name r))) k)) eff rs x =
     (if x \<in> set (names rs) \<and> x \<noteq> ''__proto__''
      then Some (scale (as_number eff x) (k ^ count_list (names rs) x))
      else eff x)"
proof (induction rs arbitrary: eff)
  case Nil
  show ?case by (simp add: names_def)
next
  case (Cons r rs)
  let ?f = "\<lambda>e r. set_property e (name r) (times_const (or_1 (get_property e (name r))) k)"
  let ?e = "?f eff r"
  have step: "?e x = (if x = name r \<and> x \<noteq> ''__proto__''
                       then Some (scale (as_number eff x) k) else eff x)"
    by (auto simp: set_property_lookup read_times)
  have num: "as_number ?e x = (if x = name r \<and> x \<noteq> ''__proto__''
                                then scale (as_number eff x) k else as_number eff x)"
    using step by (rule as_number_if)
  have "foldl ?f eff (r # rs) x = foldl ?f ?e rs x"
    by (simp only: foldl_Cons)
  also have "\<dots> = (if x \<in> set (names rs) \<and> x \<noteq> ''__proto__''
                   then Some (scale (as_number ?e x) (k ^ count_list (names rs) x))
                   else ?e x)"
    by (rule Cons.IH)
  also have "\<dots> = (if x \<in> set (names (r # rs)) \<and> x \<noteq> ''__proto__''
                   then Some (scale (as_number eff x) (k ^ count_list (names (r # rs)) x))
                   else eff x)"
    unfolding step num by (auto simp: names_def scale_scale count_list_0_iff)
  finally show ?case .
qed

lemma foldl_zero:
  "foldl (\<lambda>e r. set_property e (name r) (Dbl 0)) eff rs x =
     (if x \<in> set (names rs) \<and> x \<noteq> ''__proto__'' then Some (Dbl 0) else eff x)"
proof (induction rs arbitrary: eff)
  case Nil
  show ?case by (simp add: names_def)
next
  case (Cons r rs)
  let ?f = "\<lambda>e r. set_property e (name r) (Dbl 0)"
  have "foldl ?f eff (r # rs) x = foldl ?f (?f eff r) rs x"
    by (simp only: foldl_Cons)
  also have "\<dots> = (if x \<in> set (names rs) \<and> x \<noteq> ''__proto__'' then Some (Dbl 0) else (?f eff r) x)"
    by (rule Cons.IH)
  also have "\<dots> = (if x \<in> set (names (r # rs)) \<and> x \<noteq> ''__proto__'' then Some (Dbl 0) else eff x)"
    by (auto simp: names_def set_property_lookup)
  finally show ?case .
qed

text \<open>The effect of one pass over a table on the entry of a name.\<close>

lemma apply_type_lookup:
  "apply_type eff t x =
     (if x \<in> set (from_names t) \<and> x \<noteq> ''__proto__''
      then Some (absorb (as_number eff x) (factor t x))
      else eff x)"
proof -
  let ?d = "double_damage_from (damage_relations t)"
  let ?h = "half_damage_from (damage_relations t)"
  let ?n = "no_damage_from (damage_relations t)"
  let ?e1 = "foldl (\<lambda>e r. set_property e (name r) (times_const (or_1 (get_property e (name r))) 2)) eff ?d"
  let ?e2 = "foldl (\<lambda>e r. set_property e (name r) (times_const (or_1 (get_property e (name r))) (1 / 2))) ?e1 ?h"
  have e1: "?e1 x = (if x \<in> set (names ?d) \<and> x \<noteq> ''__proto__''
                      then Some (scale (as_number eff x) (2 ^ count_list (names ?d) x))
                      else eff x)"
    by (rule foldl_scale)
  have n1: "as_number ?e1 x = (if x \<in> set (names ?d) \<and> x \<noteq> ''__proto__''
                                then scale (as_number eff x) (2 ^ count_list (names ?d) x)
                                else as_number eff x)"
    using e1 by (rule as_number_if)
  have e2: "?e2 x = (if x \<in> set (names ?h) \<and> x \<noteq> ''__proto__''
                      then Some (scale (as_number ?e1 x) ((1 / 2) ^ count_list (names ?h) x))
                      else ?e1 x)"
    by (rule foldl_scale)
  have e3: "apply_type eff t x =
              (if x \<in> set (names ?n) \<and> x \<noteq> ''__proto__'' then Some (Dbl 0) else ?e2 x)"
    unfolding apply_type_def Let_def by (rule foldl_zero)
  have c0: "count_list xs x = 0" if "x \<notin> set xs" for xs :: "string list"
    using that by (simp add: count_list_0_iff)
  show ?thesis
    unfolding e3 e2 n1 e1
    by (auto simp: from_names_def factor_def absorb_def scale_scale scale_one c0)
qed

lemma factor_untouched: "x \<notin> set (from_names t) \<Longrightarrow> factor t x = 1"
  by (simp add: factor_def from_names_def)

lemma prod_factor_untouched:
  "\<forall>u \<in> set ts. x \<notin> set (from_names u) \<Longrightarrow> prod_list (map (\<lambda>t. factor t x) ts) = 1"
  by (induction ts) (simp_all add: factor_untouched)

lemma foldl_apply_type:
  "foldl apply_type eff ts x =
     (if (\<exists>t \<in> set ts. x \<in> set (from_names t)) \<and> x \<noteq> ''__proto__''
      then Some (absorb (as_number eff x) (prod_list (map (\<lambda>t. factor t x) ts)))
      else eff x)"
proof (induction ts arbitrary: eff)
  case Nil
  show ?case by simp
next
  case (Cons t ts)
  let ?e = "apply_type eff t"
  have num: "as_number ?e x = (if x \<in> set (from_names t) \<and> x \<noteq> ''__proto__''
                                then absorb (as_number eff x) (factor t x)
                                else as_number eff x)"
    using apply_type_lookup by (rule as_number_if)
  have "foldl apply_type eff (t # ts) x = foldl apply_type ?e ts x"
    by simp
  also have "\<dots> = (if (\<exists>u \<in> set ts. x \<in> set (from_names u)) \<and> x \<noteq> ''__proto__''
                   then Some (absorb (as_number ?e x) (prod_list (map (\<lambda>t. factor t x) ts)))
                   else ?e x)"
    by (rule Cons.IH)
  also have "\<dots> = (if (\<exists>u \<in> set (t # ts). x \<in> set (from_names u)) \<and> x \<noteq> ''__proto__''
                   then Some (absorb (as_number eff x) (prod_list (map (\<lambda>t. factor t x) (t # ts))))
                   else eff x)"
    unfolding num
    by (auto simp: apply_type_lookup absorb_absorb absorb_one factor_untouched
          prod_factor_untouched)
  finally show ?case .
qed

text \<open>
  The entry of a name in the result: absent when no table mentions the name, and for
  \<open>__proto__\<close>; else the start value of the name (1, or \<open>NaN\<close> for an inherited name)
  under the product of the factors of the tables.
\<close>

lemma calculate_lookup:
  "calculateTypeEffectiveness ts x =
     (if (\<exists>t \<in> set ts. x \<in> set (from_names t)) \<and> x \<noteq> ''__proto__''
      then Some (absorb (as_number Map.empty x) (prod_list (map (\<lambda>t. factor t x) ts)))
      else None)"
  by (simp add: calculateTypeEffectiveness_def foldl_apply_type)

lemma absorb_ordinary: "absorb (Dbl 1) f = Dbl f"
  by (simp add: absorb_def)

lemma calculate_ordinary:
  assumes "x \<notin> set Object_prototype_keys"
  shows "calculateTypeEffectiveness ts x =
     (if \<exists>t \<in> set ts. x \<in> set (from_names t)
      then Some (Dbl (prod_list (map (\<lambda>t. factor t x) ts)))
      else None)"
proof -
  from assms have "x \<noteq> ''__proto__''" by (auto simp: Object_prototype_keys_def)
  with assms show ?thesis
    by (simp add: calculate_lookup as_number_empty absorb_ordinary)
qed


lemma count_list_distinct: "distinct xs \<Longrightarrow> count_list xs x = (if x \<in> set xs then 1 else 0)"
  by (induction xs) auto

lemma calculate_two:
  "calculateTypeEffectiveness [A, B] x =
     (if (x \<in> set (from_names A) \<or> x \<in> set (from_names B)) \<and> x \<noteq> ''__proto__''
      then Some (absorb (as_number Map.empty x) (factor A x * factor B x)) else None)"
  by (simp add: calculate_lookup)


text \<open>In a valid table the factor is what the table says about the type.\<close>

lemma factor_valid:
  assumes "valid_relations t"
  shows "factor t x = (case raw_relation t x of None \<Rightarrow> 1 | Some r \<Rightarrow> r)"
proof -
  let ?d = "names (double_damage_from (damage_relations t))"
  let ?h = "names (half_damage_from (damage_relations t))"
  let ?n = "names (no_damage_from (damage_relations t))"
  from assms have d: "distinct ?d" and h: "distinct ?h"
    and dh: "set ?d \<inter> set ?h = {}"
    by (auto simp: valid_relations_def from_names_def)
  have cd: "count_list ?d x = (if x \<in> set ?d then 1 else 0)"
    using d by (rule count_list_distinct)
  have ch: "count_list ?h x = (if x \<in> set ?h then 1 else 0)"
    using h by (rule count_list_distinct)
  from dh have "\<not> (x \<in> set ?d \<and> x \<in> set ?h)" by blast
  then show ?thesis
    by (auto simp: factor_def raw_relation_def cd ch)
qed







text \<open>
  C5. Combining two tables in either order gives the same map: the same keys with the
  same multipliers.
\<close>

theorem effectiveness_commutes:
  "calculateTypeEffectiveness [A, B] = calculateTypeEffectiveness [B, A]"
proof
  fix x
  show "calculateTypeEffectiveness [A, B] x = calculateTypeEffectiveness [B, A] x"
    by (simp add: calculate_two mult.commute disj_commute)
qed

theorem effectiveness_commutes_witness:
  "calculateTypeEffectiveness [water_type, ground_type] = calculateTypeEffectiveness [ground_type, water_type]
   \<and> calculateTypeEffectiveness [ground_type, water_type] ''electric'' = Some (Dbl 0)"
proof -
  have "calculateTypeEffectiveness [ground_type, water_type] ''electric'' = Some (Dbl 0)"
    by code_simp
  with effectiveness_commutes [of water_type ground_type] show ?thesis by simp
qed







text \<open>
  C8. For valid water and ground tables, where water's \<open>double_damage_from\<close> holds
  electric and grass, ground's holds water, grass and ice, and ground's
  \<open>no_damage_from\<close> holds electric, the combination of water and ground maps the
  attacking type grass to 4 and electric to 0.
\<close>

theorem water_ground_scenario:
  assumes "valid_relations water" and "valid_relations ground"
    and "{''electric'', ''grass''} \<subseteq> set (names (double_damage_from (damage_relations water)))"
    and "{''water'', ''grass'', ''ice''} \<subseteq> set (names (double_damage_from (damage_relations ground)))"
    and "''electric'' \<in> set (names (no_damage_from (damage_relations ground)))"
  shows "calculateTypeEffectiveness [water, ground] ''grass'' = Some (Dbl 4)
         \<and> calculateTypeEffectiveness [water, ground] ''electric'' = Some (Dbl 0)"
proof -
  have og: "''grass'' \<notin> set Object_prototype_keys"
    and oe: "''electric'' \<notin> set Object_prototype_keys"
    by (simp_all add: Object_prototype_keys_def)
  have gw: "''grass'' \<in> set (names (double_damage_from (damage_relations water)))"
    and gg: "''grass'' \<in> set (names (double_damage_from (damage_relations ground)))"
    using assms(3,4) by simp_all
  have "raw_relation water ''grass'' = Some 2"
    using assms(1) gw by (auto simp: raw_relation_def valid_relations_def from_names_def)
  then have fw: "factor water ''grass'' = 2"
    by (simp add: factor_valid [OF assms(1)])
  have "raw_relation ground ''grass'' = Some 2"
    using assms(2) gg by (auto simp: raw_relation_def valid_relations_def from_names_def)
  then have fg: "factor ground ''grass'' = 2"
    by (simp add: factor_valid [OF assms(2)])
  have in_w: "''grass'' \<in> set (from_names water)"
    using gw by (simp add: from_names_def)
  have grass: "calculateTypeEffectiveness [water, ground] ''grass'' = Some (Dbl 4)"
    by (simp add: calculate_ordinary [OF og] in_w fw fg)
  have in_g: "''electric'' \<in> set (from_names ground)"
    using assms(5) by (simp add: from_names_def)
  have "factor ground ''electric'' = 0"
    using assms(5) by (simp add: factor_def)
  then have "calculateTypeEffectiveness [water, ground] ''electric'' = Some (Dbl 0)"
    by (simp add: calculate_ordinary [OF oe] in_g)
  with grass show ?thesis by blast
qed

theorem water_ground_scenario_witness:
  "valid_relations water_type \<and> valid_relations ground_type
   \<and> {''electric'', ''grass''} \<subseteq> set (names (double_damage_from (damage_relations water_type)))
   \<and> {''water'', ''grass'', ''ice''} \<subseteq> set (names (double_damage_from (damage_relations ground_type)))
   \<and> ''electric'' \<in> set (names (no_damage_from (damage_relations ground_type)))
   \<and> calculateTypeEffectiveness [water_type, ground_type] ''grass'' = Some (Dbl 4)
   \<and> calculateTypeEffectiveness [water_type, ground_type] ''electric'' = Some (Dbl 0)"
proof -
  have a: "valid_relations water_type" by code_simp
  have b: "valid_relations ground_type" by code_simp
  have c: "{''electric'', ''grass''} \<subseteq> set (names (double_damage_from (damage_relations water_type)))"
    by code_simp
  have d: "{''water'', ''grass'', ''ice''} \<subseteq> set (names (double_damage_from (damage_relations ground_type)))"
    by code_simp
  have e: "''electric'' \<in> set (names (no_damage_from (damage_relations ground_type)))"
    by code_simp
  from a b c d e water_ground_scenario [OF a b c d e] show ?thesis by blast
qed




end
